theory Spec2Isabelle
  imports Complex_Main
begin

section \<open>Wind data analyzer (wind\_analyzer.py)\<close>

text \<open>
  The analyzer holds an optional pandas DataFrame and answers queries about its
  \<open>wind_speed\<close> and \<open>wind_direction\<close> columns. The model is column oriented, as the
  source is: \<open>self.data['wind_speed']\<close> is the field \<open>wind_speed\<close> of the frame.

  Numbers: a cell of an input column is a finite float, modelled as an exact \<open>real\<close>
  (rounding, overflow and signed zeros are not modelled; input cells are never NaN).
  A computed float that may be NaN or infinite has type \<open>float64\<close>.
\<close>

subsection \<open>Data model\<close>

datatype error = ValueError string | ZeroDivisionError | KeyError

datatype float64 = Fin real | PosInf | NegInf | NaN

record datetime =
  dt_year :: nat
  dt_month :: nat
  dt_day :: nat
  dt_hour :: nat
  dt_minute :: nat
  dt_second :: nat

text \<open>
  The helper column \<open>direction_bin\<close> is written with dtype int64 by
  \<open>get_wind_rose_data\<close> and with dtype float64 by \<open>get_prevailing_direction\<close>.
\<close>

datatype bin_column = IntBins "int list" | FloatBins "real list"

text \<open>
  A DataFrame: the row labels and the columns the analyzer reads or writes. The columns
  \<open>timestamp\<close>, \<open>direction_bin\<close> and \<open>hour\<close> may be absent.
\<close>

record dataframe =
  index :: "nat list"
  timestamp :: "datetime list option"
  wind_speed :: "real list"
  wind_direction :: "real list"
  direction_bin :: "bin_column option"
  hour :: "nat list option"

record WindDataAnalyzer =
  data :: "dataframe option"

text \<open>pandas only builds frames whose columns all have the length of the index.\<close>

fun bins_length :: "bin_column \<Rightarrow> nat" where
  "bins_length (IntBins bs) = length bs"
| "bins_length (FloatBins bs) = length bs"

definition well_formed :: "dataframe \<Rightarrow> bool" where
  "well_formed df \<longleftrightarrow>
     length (wind_speed df) = length (index df) \<and>
     length (wind_direction df) = length (index df) \<and>
     (case timestamp df of None \<Rightarrow> True | Some ts \<Rightarrow> length ts = length (index df)) \<and>
     (case direction_bin df of None \<Rightarrow> True | Some bs \<Rightarrow> bins_length bs = length (index df)) \<and>
     (case hour df of None \<Rightarrow> True | Some hs \<Rightarrow> length hs = length (index df))"

text \<open>\<open>len(df)\<close> and \<open>df.empty\<close>.\<close>

definition len_df :: "dataframe \<Rightarrow> nat" where
  "len_df df = length (index df)"

definition empty_df :: "dataframe \<Rightarrow> bool" where
  "empty_df df \<longleftrightarrow> index df = []"

subsection \<open>Boolean indexing: \<open>df[mask]\<close>\<close>

fun mask_select :: "bool list \<Rightarrow> 'a list \<Rightarrow> 'a list" where
  "mask_select (m # ms) (x # xs) = (if m then x # mask_select ms xs else mask_select ms xs)"
| "mask_select _ _ = []"

fun mask_select_bins :: "bool list \<Rightarrow> bin_column \<Rightarrow> bin_column" where
  "mask_select_bins m (IntBins bs) = IntBins (mask_select m bs)"
| "mask_select_bins m (FloatBins bs) = FloatBins (mask_select m bs)"

definition getitem_mask :: "dataframe \<Rightarrow> bool list \<Rightarrow> dataframe" where
  "getitem_mask df m =
     \<lparr> index = mask_select m (index df),
       timestamp = map_option (mask_select m) (timestamp df),
       wind_speed = mask_select m (wind_speed df),
       wind_direction = mask_select m (wind_direction df),
       direction_bin = map_option (mask_select_bins m) (direction_bin df),
       hour = map_option (mask_select m) (hour df) \<rparr>"

subsection \<open>Series reductions\<close>

text \<open>Each reduction of an empty Series is NaN.\<close>

definition series_mean :: "real list \<Rightarrow> float64" where
  "series_mean xs = (if xs = [] then NaN else Fin (sum_list xs / real (length xs)))"

definition series_median :: "real list \<Rightarrow> float64" where
  "series_median xs =
     (let s = sort xs; n = length xs in
      if n = 0 then NaN
      else if odd n then Fin (s ! (n div 2))
      else Fin ((s ! (n div 2 - 1) + s ! (n div 2)) / 2))"

text \<open>\<open>Series.std()\<close> has \<open>ddof = 1\<close>: with fewer than two values it is NaN.\<close>

definition series_std :: "real list \<Rightarrow> float64" where
  "series_std xs =
     (if length xs \<le> 1 then NaN
      else Fin (sqrt (sum_list (map (\<lambda>x. (x - sum_list xs / real (length xs))\<^sup>2) xs)
                        / (real (length xs) - 1))))"

definition series_min :: "real list \<Rightarrow> float64" where
  "series_min xs = (if xs = [] then NaN else Fin (Min (set xs)))"

definition series_max :: "real list \<Rightarrow> float64" where
  "series_max xs = (if xs = [] then NaN else Fin (Max (set xs)))"

text \<open>
  \<open>Series.mode()\<close>: the values of highest count, in ascending order.
\<close>

definition series_mode :: "real list \<Rightarrow> real list" where
  "series_mode xs =
     (if xs = [] then []
      else filter (\<lambda>v. count_list xs v = Max (set (map (count_list xs) xs)))
             (sort (remdups xs)))"

text \<open>
  \<open>Series.rolling(window=w).agg()\<close> with the default \<open>min_periods = w\<close>: position
  \<open>i\<close> reduces the \<open>w\<close> values ending at \<open>i\<close>, and is NaN while fewer are available.
\<close>

definition rolling :: "nat \<Rightarrow> (real list \<Rightarrow> float64) \<Rightarrow> real list \<Rightarrow> float64 list" where
  "rolling window agg xs =
     map (\<lambda>i. if i + 1 < window then NaN
              else agg (take window (drop (i + 1 - window) xs)))
       [0..<length xs]"

text \<open>Float division: a zero divisor gives an infinity or NaN, never an exception.\<close>

fun fdiv :: "float64 \<Rightarrow> float64 \<Rightarrow> float64" where
  "fdiv NaN _ = NaN"
| "fdiv _ NaN = NaN"
| "fdiv (Fin a) (Fin b) =
     (if b \<noteq> 0 then Fin (a / b)
      else if 0 < a then PosInf else if a < 0 then NegInf else NaN)"
| "fdiv (Fin a) PosInf = Fin 0"
| "fdiv (Fin a) NegInf = Fin 0"
| "fdiv PosInf (Fin b) = (if 0 \<le> b then PosInf else NegInf)"
| "fdiv NegInf (Fin b) = (if 0 \<le> b then NegInf else PosInf)"
| "fdiv PosInf PosInf = NaN"
| "fdiv PosInf NegInf = NaN"
| "fdiv NegInf PosInf = NaN"
| "fdiv NegInf NegInf = NaN"

text \<open>\<open>astype(int)\<close> truncates toward zero.\<close>

definition trunc :: "real \<Rightarrow> int" where
  "trunc x = (if 0 \<le> x then \<lfloor>x\<rfloor> else \<lceil>x\<rceil>)"

text \<open>\<open>Series.round()\<close> rounds a half to the even neighbour.\<close>

definition round_half_even :: "real \<Rightarrow> int" where
  "round_half_even x =
     (let f = \<lfloor>x\<rfloor>; r = x - of_int f in
      if r < 1 / 2 then f
      else if 1 / 2 < r then f + 1
      else if even f then f else f + 1)"

text \<open>The float \<open>%\<close> of numpy: the result has the sign of the divisor.\<close>

definition float_mod :: "real \<Rightarrow> real \<Rightarrow> real" where
  "float_mod x y = x - y * of_int \<lfloor>x / y\<rfloor>"

subsection \<open>The queries\<close>

definition no_data :: error where
  "no_data = ValueError ''No data loaded''"

record stats =
  mean_speed :: float64
  median_speed :: float64
  std_speed :: float64
  min_speed :: float64
  max_speed :: float64

definition get_basic_statistics :: "WindDataAnalyzer \<Rightarrow> error + stats" where
  "get_basic_statistics self =
     (case data self of
        None \<Rightarrow> Inl no_data
      | Some df \<Rightarrow>
          if empty_df df then Inl no_data
          else Inr \<lparr> mean_speed = series_mean (wind_speed df),
                     median_speed = series_median (wind_speed df),
                     std_speed = series_std (wind_speed df),
                     min_speed = series_min (wind_speed df),
                     max_speed = series_max (wind_speed df) \<rparr>)"

record wind_rose =
  directions :: "real list"
  frequencies :: "real list"
  avg_speeds :: "float64 list"

text \<open>The direction bins of \<open>get_wind_rose_data\<close> (truncating).\<close>

definition rose_bins :: "int \<Rightarrow> real list \<Rightarrow> int list" where
  "rose_bins bins ds = map (\<lambda>d. trunc (d / (360 / of_int bins)) mod bins) ds"

definition get_wind_rose_data ::
    "WindDataAnalyzer \<Rightarrow> int \<Rightarrow> (error + wind_rose) \<times> WindDataAnalyzer" where
  "get_wind_rose_data self bins =
     (case data self of
        None \<Rightarrow> (Inl no_data, self)
      | Some df \<Rightarrow>
          if empty_df df then (Inl no_data, self)
          else if bins = 0 then (Inl ZeroDivisionError, self)
          else
            let bin_size = 360 / of_int bins;
                df' = df\<lparr>direction_bin := Some (IntBins (rose_bins bins (wind_direction df)))\<rparr>;
                bin_data = (\<lambda>i. getitem_mask df'
                              (map (\<lambda>b. b = int i) (rose_bins bins (wind_direction df))));
                rng = [0..<nat bins]
            in (Inr \<lparr> directions = map (\<lambda>i. real i * bin_size) rng,
                       frequencies =
                         map (\<lambda>i. real (len_df (bin_data i)) / real (len_df df') * 100) rng,
                       avg_speeds =
                         map (\<lambda>i. if 0 < len_df (bin_data i)
                                   then series_mean (wind_speed (bin_data i)) else Fin 0) rng \<rparr>,
                self\<lparr>data := Some df'\<rparr>))"

definition detect_calm_periods :: "WindDataAnalyzer \<Rightarrow> real \<Rightarrow> error + dataframe" where
  "detect_calm_periods self threshold =
     (case data self of
        None \<Rightarrow> Inl no_data
      | Some df \<Rightarrow>
          if empty_df df then Inl no_data
          else Inr (getitem_mask df (map (\<lambda>s. s < threshold) (wind_speed df))))"

definition detect_strong_wind_events :: "WindDataAnalyzer \<Rightarrow> real \<Rightarrow> error + dataframe" where
  "detect_strong_wind_events self threshold =
     (case data self of
        None \<Rightarrow> Inl no_data
      | Some df \<Rightarrow>
          if empty_df df then Inl no_data
          else Inr (getitem_mask df (map (\<lambda>s. threshold < s) (wind_speed df))))"

text \<open>\<open>rolling\<close> rejects a negative window.\<close>

definition calculate_gust_factor :: "WindDataAnalyzer \<Rightarrow> int \<Rightarrow> error + float64 list" where
  "calculate_gust_factor self window =
     (case data self of
        None \<Rightarrow> Inl no_data
      | Some df \<Rightarrow>
          if empty_df df then Inl no_data
          else if window < 0 then Inl (ValueError ''window must be an integer 0 or greater'')
          else
            let rolling_max = rolling (nat window) series_max (wind_speed df);
                rolling_mean = rolling (nat window) series_mean (wind_speed df)
            in Inr (map2 fdiv rolling_max rolling_mean))"

text \<open>The direction bins of \<open>get_prevailing_direction\<close> (rounding, as floats).\<close>

definition prevailing_bins :: "real list \<Rightarrow> real list" where
  "prevailing_bins ds = map (\<lambda>d. float_mod (of_int (round_half_even (d / 22.5))) 16) ds"

definition get_prevailing_direction ::
    "WindDataAnalyzer \<Rightarrow> (error + real \<times> real) \<times> WindDataAnalyzer" where
  "get_prevailing_direction self =
     (case data self of
        None \<Rightarrow> (Inl no_data, self)
      | Some df \<Rightarrow>
          if empty_df df then (Inl no_data, self)
          else
            let bin_size = 22.5;
                bs = prevailing_bins (wind_direction df);
                df' = df\<lparr>direction_bin := Some (FloatBins bs)\<rparr>
            in (case series_mode bs of
                  [] \<Rightarrow> (Inl KeyError, self\<lparr>data := Some df'\<rparr>)
                | most_common_bin # _ \<Rightarrow>
                    (Inr (most_common_bin * bin_size,
                          real (length (filter (\<lambda>b. b = most_common_bin) bs))
                            / real (len_df df') * 100),
                     self\<lparr>data := Some df'\<rparr>)))"

record hourly_stats =
  mean_col :: float64
  std_col :: float64
  min_col :: float64
  max_col :: float64

text \<open>
  \<open>groupby('hour')['wind_speed'].agg([...])\<close>: one row per hour that occurs, in
  ascending order of the hour.
\<close>

definition groupby_agg :: "nat list \<Rightarrow> real list \<Rightarrow> (nat \<times> hourly_stats) list" where
  "groupby_agg hs xs =
     map (\<lambda>k. let g = mask_select (map (\<lambda>h. h = k) hs) xs in
               (k, \<lparr> mean_col = series_mean g, std_col = series_std g,
                     min_col = series_min g, max_col = series_max g \<rparr>))
       (sort (remdups hs))"

definition analyze_daily_pattern ::
    "WindDataAnalyzer \<Rightarrow> (error + (nat \<times> hourly_stats) list) \<times> WindDataAnalyzer" where
  "analyze_daily_pattern self =
     (case data self of
        None \<Rightarrow> (Inl no_data, self)
      | Some df \<Rightarrow>
          if empty_df df then (Inl no_data, self)
          else
            (case timestamp df of
               None \<Rightarrow>
                 (Inl (ValueError ''Timestamp column required for daily pattern analysis''), self)
             | Some ts \<Rightarrow>
                 let df' = df\<lparr>hour := Some (map dt_hour ts)\<rparr>
                 in (Inr (groupby_agg (map dt_hour ts) (wind_speed df')),
                     self\<lparr>data := Some df'\<rparr>)))"

definition calculate_power_density :: "WindDataAnalyzer \<Rightarrow> real \<Rightarrow> error + real list" where
  "calculate_power_density self air_density =
     (case data self of
        None \<Rightarrow> Inl no_data
      | Some df \<Rightarrow>
          if empty_df df then Inl no_data
          else Inr (map (\<lambda>s. 0.5 * air_density * s ^ 3) (wind_speed df)))"

text \<open>
  The report is a fixed text with these values interpolated; the model keeps the values.
\<close>

record report =
  total_observations :: nat
  speed_stats :: stats
  prevailing_dir :: real
  prevailing_pct :: real
  calm_periods :: nat
  strong_events :: nat
  avg_power_density :: float64

definition get_summary_report ::
    "WindDataAnalyzer \<Rightarrow> (error + report) \<times> WindDataAnalyzer" where
  "get_summary_report self =
     (case data self of
        None \<Rightarrow> (Inl no_data, self)
      | Some df \<Rightarrow>
          if empty_df df then (Inl no_data, self)
          else
            (case get_basic_statistics self of
               Inl e \<Rightarrow> (Inl e, self)
             | Inr st \<Rightarrow>
                 (case get_prevailing_direction self of
                    (Inl e, self1) \<Rightarrow> (Inl e, self1)
                  | (Inr (dir, pct), self1) \<Rightarrow>
                      (case detect_calm_periods self1 2.0 of
                         Inl e \<Rightarrow> (Inl e, self1)
                       | Inr calm \<Rightarrow>
                           (case detect_strong_wind_events self1 10.0 of
                              Inl e \<Rightarrow> (Inl e, self1)
                            | Inr strong \<Rightarrow>
                                (case calculate_power_density self1 1.225 of
                                   Inl e \<Rightarrow> (Inl e, self1)
                                 | Inr pd \<Rightarrow>
                                     (Inr \<lparr> total_observations =
                                               (case data self1 of None \<Rightarrow> 0
                                                | Some d \<Rightarrow> len_df d),
                                             speed_stats = st,
                                             prevailing_dir = dir,
                                             prevailing_pct = pct,
                                             calm_periods = len_df calm,
                                             strong_events = len_df strong,
                                             avg_power_density = series_mean pd \<rparr>,
                                      self1)))))))"

subsection \<open>Queries as values\<close>

datatype query =
    BasicStatistics
  | WindRose int
  | DetectCalmPeriods real
  | DetectStrongWindEvents real
  | GustFactor int
  | PrevailingDirection
  | DailyPattern
  | PowerDensity real
  | SummaryReport

datatype result =
    Stats stats
  | Rose wind_rose
  | Frame dataframe
  | FloatSeries "float64 list"
  | Direction "real \<times> real"
  | Hourly "(nat \<times> hourly_stats) list"
  | RealSeries "real list"
  | Report report

fun run_query :: "WindDataAnalyzer \<Rightarrow> query \<Rightarrow> (error + result) \<times> WindDataAnalyzer" where
  "run_query self BasicStatistics = (map_sum id Stats (get_basic_statistics self), self)"
| "run_query self (WindRose bins) = apfst (map_sum id Rose) (get_wind_rose_data self bins)"
| "run_query self (DetectCalmPeriods t) = (map_sum id Frame (detect_calm_periods self t), self)"
| "run_query self (DetectStrongWindEvents t) =
     (map_sum id Frame (detect_strong_wind_events self t), self)"
| "run_query self (GustFactor w) = (map_sum id FloatSeries (calculate_gust_factor self w), self)"
| "run_query self PrevailingDirection =
     apfst (map_sum id Direction) (get_prevailing_direction self)"
| "run_query self DailyPattern = apfst (map_sum id Hourly) (analyze_daily_pattern self)"
| "run_query self (PowerDensity a) =
     (map_sum id RealSeries (calculate_power_density self a), self)"
| "run_query self SummaryReport = apfst (map_sum id Report) (get_summary_report self)"

fun run_queries :: "WindDataAnalyzer \<Rightarrow> query list \<Rightarrow> WindDataAnalyzer" where
  "run_queries self [] = self"
| "run_queries self (q # qs) = run_queries (snd (run_query self q)) qs"

subsection \<open>Notions used in the statements\<close>

text \<open>
  The samples of a frame, row by row: the timestamp (when the frame has the column), the
  speed and the direction.
\<close>

definition samples :: "dataframe \<Rightarrow> (datetime option \<times> real \<times> real) list" where
  "samples df =
     zip (case timestamp df of None \<Rightarrow> replicate (len_df df) None | Some ts \<Rightarrow> map Some ts)
       (zip (wind_speed df) (wind_direction df))"



text \<open>The speeds of the samples whose key (hour, bin) satisfies \<open>P\<close>, in frame order.\<close>

definition speeds_where :: "('k \<Rightarrow> bool) \<Rightarrow> 'k list \<Rightarrow> real list \<Rightarrow> real list" where
  "speeds_where P ks xs = map snd (filter (\<lambda>(k, x). P k) (zip ks xs))"


text \<open>The bin of a direction as the specification words it: round, then modulo 16.\<close>

definition round_bin :: "real \<Rightarrow> int" where
  "round_bin d = round_half_even (d / 22.5) mod 16"

text \<open>The number of samples of a bin.\<close>

definition bin_count :: "real list \<Rightarrow> int \<Rightarrow> nat" where
  "bin_count ds b = length (filter (\<lambda>d. round_bin d = b) ds)"

text \<open>A frame without the helper columns that queries write.\<close>

definition drop_helpers :: "dataframe \<Rightarrow> dataframe" where
  "drop_helpers df = df\<lparr>direction_bin := None, hour := None\<rparr>"

text \<open>A result up to the helper columns of a returned frame.\<close>

fun core :: "result \<Rightarrow> result" where
  "core (Frame df) = Frame (drop_helpers df)"
| "core r = r"

text \<open>The two queries that return rows of the frame itself.\<close>

fun returns_frame :: "query \<Rightarrow> bool" where
  "returns_frame (DetectCalmPeriods t) = True"
| "returns_frame (DetectStrongWindEvents t) = True"
| "returns_frame q = False"

text \<open>The analyzer with the helper columns of its frame removed.\<close>

definition strip :: "WindDataAnalyzer \<Rightarrow> WindDataAnalyzer" where
  "strip self = \<lparr>data = map_option drop_helpers (data self)\<rparr>"

subsection \<open>Example frames\<close>

text \<open>Small frames on which the theorems are instantiated.\<close>

definition ex_frame :: dataframe where
  "ex_frame = \<lparr> index = [0, 1, 2], timestamp = None, wind_speed = [1, 5, 12],
      wind_direction = [0, 90, 180], direction_bin = None, hour = None \<rparr>"



definition hourly :: dataframe where
  "hourly = \<lparr> index = [0, 1, 2],
      timestamp = Some [\<lparr>dt_year = 2024, dt_month = 1, dt_day = 1, dt_hour = 7, dt_minute = 0, dt_second = 0\<rparr>,
                        \<lparr>dt_year = 2024, dt_month = 1, dt_day = 1, dt_hour = 3, dt_minute = 0, dt_second = 0\<rparr>,
                        \<lparr>dt_year = 2024, dt_month = 1, dt_day = 2, dt_hour = 7, dt_minute = 30, dt_second = 0\<rparr>],
      wind_speed = [2, 4, 6], wind_direction = [0, 90, 180],
      direction_bin = None, hour = None \<rparr>"

definition half_bins :: dataframe where
  "half_bins = \<lparr> index = [0, 1, 2, 3], timestamp = None, wind_speed = [1, 2, 3, 4],
      wind_direction = [11.25, 33.75, 350, 33.75], direction_bin = None, hour = None \<rparr>"

section \<open>Properties\<close>

subsection \<open>Boolean indexing\<close>

lemma mask_select_map: "mask_select (map p xs) xs = filter p xs"
  by (induction xs) auto

lemma mask_select_map_f: "mask_select m (map f xs) = map f (mask_select m xs)"
  by (induction m xs rule: mask_select.induct) auto

lemma mask_select_zip:
  "mask_select m (zip xs ys) = zip (mask_select m xs) (mask_select m ys)"
proof (induction m arbitrary: xs ys)
  case Nil
  then show ?case by simp
next
  case (Cons b m)
  show ?case
  proof (cases xs)
    case Nil
    then show ?thesis by simp
  next
    case xs: (Cons x xs')
    show ?thesis
    proof (cases ys)
      case Nil
      then show ?thesis by (cases "mask_select (b # m) xs") simp_all
    next
      case (Cons y ys')
      with xs Cons.IH show ?thesis by simp
    qed
  qed
qed

lemma mask_select_replicate:
  "length m = n \<Longrightarrow> mask_select m (replicate n x) = replicate (length (filter id m)) x"
  by (induction m arbitrary: n) auto

lemma length_mask_select:
  "length m = length xs \<Longrightarrow> length (mask_select m xs) = length (filter id m)"
  by (induction m xs rule: mask_select.induct) auto

lemma map_zip3_middle:
  "length ts = length xs \<Longrightarrow> length xs = length ys \<Longrightarrow>
   map (\<lambda>(t, x, y). p x) (zip ts (zip xs ys)) = map p xs"
  by (induction ts xs ys rule: list_induct3) auto

lemma samples_getitem_mask:
  assumes "well_formed df"
  shows "samples (getitem_mask df (map p (wind_speed df)))
           = filter (\<lambda>(ts, s, d). p s) (samples df)"
proof -
  let ?m = "map p (wind_speed df)"
  let ?T = "case timestamp df of None \<Rightarrow> replicate (len_df df) None | Some ts \<Rightarrow> map Some ts"
  have len: "length (wind_speed df) = length (index df)"
    "length (wind_direction df) = length (index df)"
    using assms by (simp_all add: well_formed_def)
  have lenT: "length ?T = length (wind_speed df)"
    using assms by (auto simp: well_formed_def len_df_def split: option.splits)
  have T: "(case timestamp (getitem_mask df ?m) of
              None \<Rightarrow> replicate (len_df (getitem_mask df ?m)) None
            | Some ts \<Rightarrow> map Some ts) = mask_select ?m ?T"
    using len by (auto simp: getitem_mask_def len_df_def mask_select_replicate
        length_mask_select mask_select_map_f split: option.splits)
  have A: "samples (getitem_mask df ?m) = mask_select ?m (samples df)"
    unfolding samples_def T by (simp add: getitem_mask_def mask_select_zip)
  have B: "?m = map (\<lambda>(ts, s, d). p s) (samples df)"
    unfolding samples_def using lenT len by (simp add: map_zip3_middle)
  have "mask_select ?m (samples df) = filter (\<lambda>(ts, s, d). p s) (samples df)"
    by (subst B) (rule mask_select_map)
  with A show ?thesis by simp
qed

subsection \<open>The empty-dataset error\<close>

text \<open>
  C1: each of the nine queries fails with \<open>ValueError('No data loaded')\<close> (the
  empty-dataset error) when no frame is loaded or the loaded frame has no rows, and on a
  frame with rows none of them fails with that error.
\<close>

theorem empty_dataset_error:
  "fst (run_query self q) = Inl (ValueError ''No data loaded'')
     \<longleftrightarrow> (case data self of None \<Rightarrow> True | Some df \<Rightarrow> empty_df df)"
proof (cases "data self")
  case None
  then show ?thesis
    by (cases q) (simp_all add: get_basic_statistics_def get_wind_rose_data_def
        detect_calm_periods_def detect_strong_wind_events_def calculate_gust_factor_def
        get_prevailing_direction_def analyze_daily_pattern_def calculate_power_density_def
        get_summary_report_def no_data_def)
next
  case (Some df)
  show ?thesis
  proof (cases "empty_df df")
    case True
    with Some show ?thesis
      by (cases q) (simp_all add: get_basic_statistics_def get_wind_rose_data_def
          detect_calm_periods_def detect_strong_wind_events_def calculate_gust_factor_def
          get_prevailing_direction_def analyze_daily_pattern_def calculate_power_density_def
          get_summary_report_def no_data_def)
  next
    case False
    with Some show ?thesis
      by (cases q) (auto simp add: get_basic_statistics_def get_wind_rose_data_def
          detect_calm_periods_def detect_strong_wind_events_def calculate_gust_factor_def
          get_prevailing_direction_def analyze_daily_pattern_def calculate_power_density_def
          get_summary_report_def no_data_def Let_def empty_df_def
          split: list.splits option.splits sum.splits prod.splits)
  qed
qed

subsection \<open>Calm periods and strong wind events\<close>

text \<open>
  C6: on a frame with rows, \<open>detect_calm_periods t\<close> returns exactly the samples with
  speed strictly below \<open>t\<close> and \<open>detect_strong_wind_events t\<close> exactly those with speed
  strictly above \<open>t\<close>, both in the order of the frame; when no sample matches the result
  is a frame without rows, not an error; and no sample is in both results.
\<close>

theorem detect_subsequences:
  assumes "data self = Some df" "\<not> empty_df df" "well_formed df"
  shows "\<exists>calm strong.
           detect_calm_periods self t = Inr calm \<and>
           detect_strong_wind_events self t = Inr strong \<and>
           samples calm = filter (\<lambda>(ts, s, d). s < t) (samples df) \<and>
           samples strong = filter (\<lambda>(ts, s, d). t < s) (samples df) \<and>
           ((\<forall>s \<in> set (wind_speed df). \<not> s < t) \<longrightarrow> samples calm = [] \<and> len_df calm = 0) \<and>
           ((\<forall>s \<in> set (wind_speed df). \<not> t < s) \<longrightarrow> samples strong = [] \<and> len_df strong = 0) \<and>
           set (samples calm) \<inter> set (samples strong) = {}"
proof -
  let ?calm = "getitem_mask df (map (\<lambda>s. s < t) (wind_speed df))"
  let ?strong = "getitem_mask df (map (\<lambda>s. t < s) (wind_speed df))"
  have c: "detect_calm_periods self t = Inr ?calm"
    using assms by (simp add: detect_calm_periods_def)
  have s: "detect_strong_wind_events self t = Inr ?strong"
    using assms by (simp add: detect_strong_wind_events_def)
  have sc: "samples ?calm = filter (\<lambda>(ts, s, d). s < t) (samples df)"
    using assms(3) by (rule samples_getitem_mask)
  have ss: "samples ?strong = filter (\<lambda>(ts, s, d). t < s) (samples df)"
    using assms(3) by (rule samples_getitem_mask)
  have len: "length (wind_speed df) = length (index df)"
    using assms(3) by (simp add: well_formed_def)
  have lc: "len_df ?calm = length (filter (\<lambda>s. s < t) (wind_speed df))"
    using len by (simp add: getitem_mask_def len_df_def length_mask_select filter_map)
  have ls: "len_df ?strong = length (filter (\<lambda>s. t < s) (wind_speed df))"
    using len by (simp add: getitem_mask_def len_df_def length_mask_select filter_map)
  have mem: "s \<in> set (wind_speed df)" if "(ts, s, d) \<in> set (samples df)" for ts s d
    using that unfolding samples_def by (blast dest: set_zip_rightD set_zip_leftD)
  have ec: "(\<forall>s \<in> set (wind_speed df). \<not> s < t) \<longrightarrow> samples ?calm = [] \<and> len_df ?calm = 0"
    unfolding sc lc by (auto simp: filter_empty_conv dest: mem)
  have es: "(\<forall>s \<in> set (wind_speed df). \<not> t < s) \<longrightarrow> samples ?strong = [] \<and> len_df ?strong = 0"
    unfolding ss ls by (auto simp: filter_empty_conv dest: mem)
  have dj: "set (samples ?calm) \<inter> set (samples ?strong) = {}"
    unfolding sc ss by auto
  from c s sc ss ec es dj show ?thesis by blast
qed

theorem detect_subsequences_witness:
  "detect_calm_periods \<lparr>data = Some ex_frame\<rparr> 2
     = Inr (ex_frame\<lparr>index := [0], wind_speed := [1], wind_direction := [0]\<rparr>) \<and>
   detect_strong_wind_events \<lparr>data = Some ex_frame\<rparr> 2
     = Inr (ex_frame\<lparr>index := [1, 2], wind_speed := [5, 12], wind_direction := [90, 180]\<rparr>) \<and>
   samples (ex_frame\<lparr>index := [0], wind_speed := [1], wind_direction := [0]\<rparr>)
     = [(None, 1, 0)]"
  using detect_subsequences [of "\<lparr>data = Some ex_frame\<rparr>" ex_frame 2]
  by (simp add: ex_frame_def empty_df_def well_formed_def detect_calm_periods_def
      detect_strong_wind_events_def getitem_mask_def samples_def len_df_def)

subsection \<open>Power density\<close>




subsection \<open>Gust factor\<close>

















subsection \<open>Basic statistics\<close>





subsection \<open>Daily pattern\<close>

lemma mask_select_keys:
  "length ks = length xs \<Longrightarrow>
   mask_select (map P ks) xs = speeds_where P ks xs"
  unfolding speeds_where_def by (induction ks xs rule: list_induct2) auto

lemma speeds_where_nonempty:
  "length ks = length xs \<Longrightarrow> k \<in> set ks \<Longrightarrow> P k \<Longrightarrow> speeds_where P ks xs \<noteq> []"
  unfolding speeds_where_def by (induction ks xs rule: list_induct2) auto

lemma map_of_groupby:
  "map_of (groupby_agg hs xs) h =
     (if h \<in> set hs
      then Some \<lparr> mean_col = series_mean (mask_select (map (\<lambda>h'. h' = h) hs) xs),
                  std_col = series_std (mask_select (map (\<lambda>h'. h' = h) hs) xs),
                  min_col = series_min (mask_select (map (\<lambda>h'. h' = h) hs) xs),
                  max_col = series_max (mask_select (map (\<lambda>h'. h' = h) hs) xs) \<rparr>
      else None)"
  unfolding groupby_agg_def Let_def
  by (simp add: map_of_map_restrict restrict_map_def)

lemma keys_groupby: "map fst (groupby_agg hs xs) = sort (remdups hs)"
  unfolding groupby_agg_def Let_def by (simp add: comp_def)

text \<open>
  C7: on a frame with rows, \<open>analyze_daily_pattern\<close> fails with
  \<open>ValueError('Timestamp column required for daily pattern analysis')\<close> when the frame
  has no timestamp column; otherwise it returns one row per hour that occurs among the
  timestamps, in ascending order, holding the mean, standard deviation, minimum and
  maximum of the speeds of the samples of that hour, and no row for any other hour.
\<close>

theorem daily_pattern_spec:
  assumes "data self = Some df" "\<not> empty_df df" "well_formed df"
  shows "(timestamp df = None \<longrightarrow>
            fst (analyze_daily_pattern self)
              = Inl (ValueError ''Timestamp column required for daily pattern analysis'')) \<and>
         (\<forall>ts. timestamp df = Some ts \<longrightarrow>
            (\<exists>pat. fst (analyze_daily_pattern self) = Inr pat \<and>
               sorted (map fst pat) \<and> distinct (map fst pat) \<and>
               set (map fst pat) = dt_hour ` set ts \<and>
               (\<forall>h. h \<notin> dt_hour ` set ts \<longrightarrow> map_of pat h = None) \<and>
               (\<forall>h \<in> dt_hour ` set ts.
                  let g = speeds_where (\<lambda>t. dt_hour t = h) ts (wind_speed df)
                  in g \<noteq> [] \<and>
                     map_of pat h = Some \<lparr> mean_col = series_mean g, std_col = series_std g,
                                            min_col = series_min g, max_col = series_max g \<rparr>)))"
proof (intro conjI allI impI)
  assume "timestamp df = None"
  with assms show "fst (analyze_daily_pattern self)
      = Inl (ValueError ''Timestamp column required for daily pattern analysis'')"
    by (simp add: analyze_daily_pattern_def)
next
  fix ts assume ts: "timestamp df = Some ts"
  let ?hs = "map dt_hour ts"
  let ?xs = "wind_speed df"
  let ?pat = "groupby_agg ?hs ?xs"
  have len: "length ts = length ?xs"
    using assms(3) ts by (simp add: well_formed_def)
  have r: "fst (analyze_daily_pattern self) = Inr ?pat"
    using assms ts by (simp add: analyze_daily_pattern_def)
  have k: "sorted (map fst ?pat)" "distinct (map fst ?pat)" "set (map fst ?pat) = dt_hour ` set ts"
    by (simp_all add: keys_groupby)
  have absent: "\<forall>h. h \<notin> dt_hour ` set ts \<longrightarrow> map_of ?pat h = None"
    by (simp add: map_of_groupby)
  have sel: "mask_select (map (\<lambda>h'. h' = h) ?hs) ?xs
               = speeds_where (\<lambda>t. dt_hour t = h) ts ?xs" for h
    using mask_select_keys [OF len, of "\<lambda>t. dt_hour t = h"] by (simp add: comp_def)
  have present: "\<forall>h \<in> dt_hour ` set ts.
                  let g = speeds_where (\<lambda>t. dt_hour t = h) ts ?xs
                  in g \<noteq> [] \<and>
                     map_of ?pat h = Some \<lparr> mean_col = series_mean g, std_col = series_std g,
                                            min_col = series_min g, max_col = series_max g \<rparr>"
  proof
    fix h assume h: "h \<in> dt_hour ` set ts"
    then obtain t where t: "t \<in> set ts" "dt_hour t = h" by blast
    have "speeds_where (\<lambda>t. dt_hour t = h) ts ?xs \<noteq> []"
      using len t by (rule speeds_where_nonempty)
    moreover have "map_of ?pat h = Some \<lparr> mean_col = series_mean (speeds_where (\<lambda>t. dt_hour t = h) ts ?xs),
          std_col = series_std (speeds_where (\<lambda>t. dt_hour t = h) ts ?xs),
          min_col = series_min (speeds_where (\<lambda>t. dt_hour t = h) ts ?xs),
          max_col = series_max (speeds_where (\<lambda>t. dt_hour t = h) ts ?xs) \<rparr>"
      using h by (simp only: map_of_groupby sel set_map if_True)
    ultimately show "let g = speeds_where (\<lambda>t. dt_hour t = h) ts ?xs
                  in g \<noteq> [] \<and>
                     map_of ?pat h = Some \<lparr> mean_col = series_mean g, std_col = series_std g,
                                            min_col = series_min g, max_col = series_max g \<rparr>"
      by (simp add: Let_def)
  qed
  from r k absent present
  show "\<exists>pat. fst (analyze_daily_pattern self) = Inr pat \<and>
               sorted (map fst pat) \<and> distinct (map fst pat) \<and>
               set (map fst pat) = dt_hour ` set ts \<and>
               (\<forall>h. h \<notin> dt_hour ` set ts \<longrightarrow> map_of pat h = None) \<and>
               (\<forall>h \<in> dt_hour ` set ts.
                  let g = speeds_where (\<lambda>t. dt_hour t = h) ts (wind_speed df)
                  in g \<noteq> [] \<and>
                     map_of pat h = Some \<lparr> mean_col = series_mean g, std_col = series_std g,
                                            min_col = series_min g, max_col = series_max g \<rparr>)"
    by blast
qed


theorem daily_pattern_spec_witness:
  "fst (analyze_daily_pattern \<lparr>data = Some hourly\<rparr>)
     = Inr [(3, \<lparr> mean_col = Fin 4, std_col = NaN, min_col = Fin 4, max_col = Fin 4 \<rparr>),
            (7, \<lparr> mean_col = Fin 4, std_col = Fin (sqrt 8), min_col = Fin 2, max_col = Fin 6 \<rparr>)] \<and>
   fst (analyze_daily_pattern \<lparr>data = Some ex_frame\<rparr>)
     = Inl (ValueError ''Timestamp column required for daily pattern analysis'')"
proof -
  have h: "data \<lparr>data = Some ex_frame\<rparr> = Some ex_frame" "\<not> empty_df ex_frame"
    "well_formed ex_frame"
    by (simp_all add: ex_frame_def empty_df_def well_formed_def)
  have n: "timestamp ex_frame = None" by (simp add: ex_frame_def)
  from daily_pattern_spec [OF h] n
  have "fst (analyze_daily_pattern \<lparr>data = Some ex_frame\<rparr>)
     = Inl (ValueError ''Timestamp column required for daily pattern analysis'')"
    by blast
  moreover have "fst (analyze_daily_pattern \<lparr>data = Some hourly\<rparr>)
     = Inr [(3, \<lparr> mean_col = Fin 4, std_col = NaN, min_col = Fin 4, max_col = Fin 4 \<rparr>),
            (7, \<lparr> mean_col = Fin 4, std_col = Fin (sqrt 8), min_col = Fin 2, max_col = Fin 6 \<rparr>)]"
    by (simp add: hourly_def empty_df_def analyze_daily_pattern_def groupby_agg_def
        series_mean_def series_std_def series_min_def series_max_def)
  ultimately show ?thesis by simp
qed

subsection \<open>Wind rose\<close>







subsection \<open>Prevailing direction\<close>

lemma float_mod_of_int: "float_mod (of_int n) 16 = of_int (n mod 16)"
proof -
  have "\<lfloor>real_of_int n / 16\<rfloor> = n div 16"
    using floor_divide_of_int_eq [of n 16, where ?'a = real] by simp
  hence "float_mod (of_int n) 16 = of_int n - 16 * of_int (n div 16)"
    by (simp add: float_mod_def)
  also have "\<dots> = of_int (n - 16 * (n div 16))" by simp
  also have "n - 16 * (n div 16) = n mod 16" by (simp add: minus_mult_div_eq_mod)
  finally show ?thesis .
qed

lemma prevailing_bins_round: "prevailing_bins ds = map (\<lambda>d. of_int (round_bin d)) ds"
  by (simp add: prevailing_bins_def round_bin_def float_mod_of_int)

lemma series_mode_head:
  assumes "xs \<noteq> []"
  shows "\<exists>b rest. series_mode xs = b # rest \<and> b \<in> set xs \<and>
           (\<forall>v. count_list xs v \<le> count_list xs b) \<and>
           (\<forall>v. count_list xs v = count_list xs b \<longrightarrow> b \<le> v)"
proof -
  define M where "M = Max (set (map (count_list xs) xs))"
  let ?P = "\<lambda>v. count_list xs v = M"
  let ?ys = "sort (remdups xs)"
  have mode: "series_mode xs = filter ?P ?ys"
    using assms by (simp add: series_mode_def M_def)
  have "M \<in> set (map (count_list xs) xs)"
    unfolding M_def using assms by (intro Max_in) simp_all
  then obtain v0 where v0: "v0 \<in> set xs" "count_list xs v0 = M" by auto
  hence "v0 \<in> set (filter ?P ?ys)" by simp
  then obtain b rest where br: "filter ?P ?ys = b # rest"
    by (cases "filter ?P ?ys") auto
  hence "b \<in> set (filter ?P ?ys)" by simp
  hence b: "b \<in> set xs" "count_list xs b = M" by simp_all
  have top: "count_list xs v \<le> M" for v
  proof (cases "v \<in> set xs")
    case True
    thus ?thesis unfolding M_def by (intro Max_ge) simp_all
  next
    case False
    thus ?thesis by simp
  qed
  have Mpos: "0 < M" using b by (metis count_list_0_iff gr0I)
  have "sorted (filter ?P ?ys)" by (intro sorted_wrt_filter) simp
  hence least: "\<forall>v \<in> set rest. b \<le> v" using br by simp
  have first: "b \<le> v" if "count_list xs v = count_list xs b" for v
  proof -
    from that b Mpos have "v \<in> set xs" by (metis count_list_0_iff less_numeral_extra(3))
    with that b have "v \<in> set (filter ?P ?ys)" by simp
    with br least show ?thesis by auto
  qed
  from mode br b top first show ?thesis by auto
qed

lemma count_list_bins:
  "count_list (map (\<lambda>d. (of_int (round_bin d) :: real)) ds) (of_int b) = bin_count ds b"
  by (induction ds) (simp_all add: bin_count_def)

text \<open>
  C3: on a frame with rows, \<open>get_prevailing_direction\<close> gives each sample the bin
  \<open>round(direction / 22.5) mod 16\<close> (the helper column it writes; a half rounds to the
  even neighbour), picks the bin \<open>b\<close> of highest count, the lowest such bin on a tie,
  and returns \<open>(b * 22.5, count(b) / total * 100)\<close>; the direction lies in
  \<open>[0, 360)\<close>, the percentage in \<open>(0, 100]\<close>, and the percentage is 100 when all
  directions are equal.
\<close>

theorem prevailing_direction_spec:
  assumes "data self = Some df" "\<not> empty_df df" "well_formed df"
  shows "\<exists>b. get_prevailing_direction self
                = (Inr (of_int b * 22.5,
                        real (bin_count (wind_direction df) b) / real (len_df df) * 100),
                   self\<lparr>data := Some (df\<lparr>direction_bin :=
                     Some (FloatBins (map (\<lambda>d. of_int (round_bin d)) (wind_direction df)))\<rparr>)\<rparr>) \<and>
              b \<in> round_bin ` set (wind_direction df) \<and>
              (\<forall>b'. bin_count (wind_direction df) b' \<le> bin_count (wind_direction df) b) \<and>
              (\<forall>b'. bin_count (wind_direction df) b' = bin_count (wind_direction df) b
                      \<longrightarrow> b \<le> b') \<and>
              0 \<le> (of_int b * 22.5 :: real) \<and> (of_int b * 22.5 :: real) < 360 \<and>
              0 < real (bin_count (wind_direction df) b) / real (len_df df) * 100 \<and>
              real (bin_count (wind_direction df) b) / real (len_df df) * 100 \<le> 100 \<and>
              ((\<forall>d \<in> set (wind_direction df). \<forall>d' \<in> set (wind_direction df). d = d')
                 \<longrightarrow> real (bin_count (wind_direction df) b) / real (len_df df) * 100 = 100)"
proof -
  let ?ds = "wind_direction df"
  let ?bs = "map (\<lambda>d. (of_int (round_bin d) :: real)) ?ds"
  let ?df' = "df\<lparr>direction_bin := Some (FloatBins ?bs)\<rparr>"
  have len: "length ?ds = len_df df"
    using assms(3) by (simp add: well_formed_def len_df_def)
  have n: "0 < len_df df"
    using assms(2) by (simp add: empty_df_def len_df_def)
  hence ne: "?bs \<noteq> []" using len by auto
  from series_mode_head [OF ne] obtain v rest where
    m: "series_mode ?bs = v # rest" and v: "v \<in> set ?bs"
    and top: "\<forall>u. count_list ?bs u \<le> count_list ?bs v"
    and first: "\<forall>u. count_list ?bs u = count_list ?bs v \<longrightarrow> v \<le> u"
    by blast
  from v obtain b where b: "v = of_int b" "b \<in> round_bin ` set ?ds" by auto
  have r: "get_prevailing_direction self
             = (Inr (of_int b * 22.5, real (bin_count ?ds b) / real (len_df df) * 100),
                self\<lparr>data := Some ?df'\<rparr>)"
    using assms(1,2) m b(1)
    by (simp add: get_prevailing_direction_def prevailing_bins_round Let_def
        bin_count_def filter_map comp_def len_df_def empty_df_def)
  have top': "bin_count ?ds b' \<le> bin_count ?ds b" for b'
    using top [rule_format, of "of_int b'"] by (simp add: b(1) count_list_bins)
  have first': "b \<le> b'" if "bin_count ?ds b' = bin_count ?ds b" for b'
    using first [rule_format, of "of_int b'"] that by (simp add: b(1) count_list_bins)
  have rng: "0 \<le> b" "b < 16"
    using b(2) by (auto simp: round_bin_def)
  hence dir: "0 \<le> (of_int b * 22.5 :: real)" "(of_int b * 22.5 :: real) < 360"
    by simp_all
  have "bin_count ?ds b \<noteq> 0"
    using b(2) by (auto simp: bin_count_def filter_empty_conv)
  hence cpos: "0 < bin_count ?ds b" by simp
  have cle: "bin_count ?ds b \<le> len_df df"
    unfolding bin_count_def len [symmetric] by (rule length_filter_le)
  have pos: "0 < real (bin_count ?ds b) / real (len_df df) * 100"
    using cpos n by simp
  have le: "real (bin_count ?ds b) / real (len_df df) * 100 \<le> 100"
    using cle n by (simp add: pos_divide_le_eq)
  have same: "real (bin_count ?ds b) / real (len_df df) * 100 = 100"
    if all: "\<forall>d \<in> set ?ds. \<forall>d' \<in> set ?ds. d = d'"
  proof -
    from b(2) obtain d0 where d0: "d0 \<in> set ?ds" "round_bin d0 = b" by auto
    with all have "\<forall>d \<in> set ?ds. round_bin d = b" by metis
    hence "filter (\<lambda>d. round_bin d = b) ?ds = ?ds" by (simp add: filter_id_conv)
    hence "bin_count ?ds b = len_df df" by (simp add: bin_count_def len)
    with n show ?thesis by simp
  qed
  from r b(2) top' first' dir pos le same show ?thesis by blast
qed

theorem prevailing_direction_spec_witness:
  "fst (get_prevailing_direction \<lparr>data = Some half_bins\<rparr>) = Inr (0, 50) \<and>
   map round_bin (wind_direction half_bins) = [0, 2, 0, 2]"
proof -
  have h: "data \<lparr>data = Some half_bins\<rparr> = Some half_bins" "\<not> empty_df half_bins"
    "well_formed half_bins"
    by (simp_all add: half_bins_def empty_df_def well_formed_def)
  from prevailing_direction_spec [OF h] obtain b where
    b: "fst (get_prevailing_direction \<lparr>data = Some half_bins\<rparr>)
          = Inr (of_int b * 22.5,
                 real (bin_count (wind_direction half_bins) b) / real (len_df half_bins) * 100)"
    by auto
  have bins: "map round_bin (wind_direction half_bins) = [0, 2, 0, 2]"
    by (simp add: half_bins_def round_bin_def round_half_even_def)
  have e: "fst (get_prevailing_direction \<lparr>data = Some half_bins\<rparr>) = Inr (0, 50)"
    by (simp add: half_bins_def empty_df_def get_prevailing_direction_def prevailing_bins_def
        round_half_even_def float_mod_def series_mode_def len_df_def Let_def)
  with b have "of_int b * 22.5 = (0::real)" by simp
  with e bins show ?thesis by simp
qed

subsection \<open>Repeated queries\<close>

lemma getitem_mask_drop_helpers:
  "getitem_mask (drop_helpers df) m = drop_helpers (getitem_mask df m)"
  by (simp add: getitem_mask_def drop_helpers_def)

lemma drop_helpers_fields [simp]:
  "index (drop_helpers df) = index df"
  "timestamp (drop_helpers df) = timestamp df"
  "wind_speed (drop_helpers df) = wind_speed df"
  "wind_direction (drop_helpers df) = wind_direction df"
  "empty_df (drop_helpers df) = empty_df df"
  "len_df (drop_helpers df) = len_df df"
  by (simp_all add: drop_helpers_def empty_df_def len_df_def)

lemma drop_helpers_update [simp]:
  "drop_helpers (df\<lparr>direction_bin := b\<rparr>) = drop_helpers df"
  "drop_helpers (df\<lparr>hour := h\<rparr>) = drop_helpers df"
  "drop_helpers (drop_helpers df) = drop_helpers df"
  by (simp_all add: drop_helpers_def)

lemma getitem_mask_fields [simp]:
  "index (getitem_mask df m) = mask_select m (index df)"
  "wind_speed (getitem_mask df m) = mask_select m (wind_speed df)"
  "len_df (getitem_mask df m) = length (mask_select m (index df))"
  by (simp_all add: getitem_mask_def len_df_def)

lemma helper_update_len [simp]:
  "len_df (df\<lparr>direction_bin := b\<rparr>) = len_df df"
  "len_df (df\<lparr>hour := h\<rparr>) = len_df df"
  "empty_df (df\<lparr>direction_bin := b\<rparr>) = empty_df df"
  "empty_df (df\<lparr>hour := h\<rparr>) = empty_df df"
  by (simp_all add: len_df_def empty_df_def)

lemma strip_basic: "get_basic_statistics (strip self) = get_basic_statistics self"
  by (cases "data self") (simp_all add: get_basic_statistics_def strip_def)

lemma strip_calm:
  "map_sum id drop_helpers (detect_calm_periods (strip self) t)
     = map_sum id drop_helpers (detect_calm_periods self t)"
  by (cases "data self")
    (simp_all add: detect_calm_periods_def strip_def getitem_mask_drop_helpers)

lemma strip_strong:
  "map_sum id drop_helpers (detect_strong_wind_events (strip self) t)
     = map_sum id drop_helpers (detect_strong_wind_events self t)"
  by (cases "data self")
    (simp_all add: detect_strong_wind_events_def strip_def getitem_mask_drop_helpers)

lemma strip_gust: "calculate_gust_factor (strip self) w = calculate_gust_factor self w"
  by (cases "data self") (simp_all add: calculate_gust_factor_def strip_def)

lemma strip_power: "calculate_power_density (strip self) a = calculate_power_density self a"
  by (cases "data self") (simp_all add: calculate_power_density_def strip_def)

lemma strip_rose:
  "fst (get_wind_rose_data (strip self) bins) = fst (get_wind_rose_data self bins)"
  by (cases "data self") (simp_all add: get_wind_rose_data_def strip_def Let_def)

lemma strip_rose_state:
  "strip (snd (get_wind_rose_data self bins)) = strip self"
  by (cases "data self") (simp_all add: get_wind_rose_data_def strip_def Let_def)

lemma strip_prevailing:
  "fst (get_prevailing_direction (strip self)) = fst (get_prevailing_direction self)"
  by (cases "data self")
    (simp_all add: get_prevailing_direction_def strip_def Let_def split: list.splits)

lemma strip_prevailing_state:
  "strip (snd (get_prevailing_direction self)) = strip self"
  by (cases "data self")
    (simp_all add: get_prevailing_direction_def strip_def Let_def split: list.splits)

lemma strip_daily:
  "fst (analyze_daily_pattern (strip self)) = fst (analyze_daily_pattern self)"
  by (cases "data self")
    (simp_all add: analyze_daily_pattern_def strip_def Let_def split: option.splits)

lemma strip_daily_state:
  "strip (snd (analyze_daily_pattern self)) = strip self"
  by (cases "data self")
    (simp_all add: analyze_daily_pattern_def strip_def Let_def split: option.splits)

lemma summary_report_unfold:
  assumes "data self = Some df" "\<not> empty_df df"
  shows "get_summary_report self =
           (case series_mode (prevailing_bins (wind_direction df)) of
              [] \<Rightarrow> (Inl KeyError, snd (get_prevailing_direction self))
            | b # _ \<Rightarrow>
                (Inr \<lparr> total_observations = len_df df,
                        speed_stats =
                          \<lparr> mean_speed = series_mean (wind_speed df),
                            median_speed = series_median (wind_speed df),
                            std_speed = series_std (wind_speed df),
                            min_speed = series_min (wind_speed df),
                            max_speed = series_max (wind_speed df) \<rparr>,
                        prevailing_dir = b * 22.5,
                        prevailing_pct =
                          real (length (filter (\<lambda>x. x = b) (prevailing_bins (wind_direction df))))
                            / real (len_df df) * 100,
                        calm_periods =
                          length (mask_select (map (\<lambda>s. s < 2.0) (wind_speed df)) (index df)),
                        strong_events =
                          length (mask_select (map (\<lambda>s. 10.0 < s) (wind_speed df)) (index df)),
                        avg_power_density =
                          series_mean (map (\<lambda>s. 0.5 * 1.225 * s ^ 3) (wind_speed df)) \<rparr>,
                 snd (get_prevailing_direction self)))"
  using assms
  by (simp add: get_summary_report_def get_basic_statistics_def get_prevailing_direction_def
      detect_calm_periods_def detect_strong_wind_events_def calculate_power_density_def
      Let_def split: list.splits)

lemma strip_report:
  "fst (get_summary_report (strip self)) = fst (get_summary_report self)"
proof (cases "data self")
  case None
  then show ?thesis by (simp add: get_summary_report_def strip_def)
next
  case (Some df)
  show ?thesis
  proof (cases "empty_df df")
    case True
    with Some show ?thesis by (simp add: get_summary_report_def strip_def)
  next
    case False
    have "data (strip self) = Some (drop_helpers df)" "\<not> empty_df (drop_helpers df)"
      using Some False by (simp_all add: strip_def)
    from summary_report_unfold [OF this] summary_report_unfold [OF Some False]
    show ?thesis by (simp split: list.splits)
  qed
qed

lemma strip_report_state:
  "strip (snd (get_summary_report self)) = strip self"
proof (cases "data self")
  case None
  then show ?thesis by (simp add: get_summary_report_def strip_def)
next
  case (Some df)
  show ?thesis
  proof (cases "empty_df df")
    case True
    with Some show ?thesis by (simp add: get_summary_report_def strip_def)
  next
    case False
    from summary_report_unfold [OF Some False]
    have "snd (get_summary_report self) = snd (get_prevailing_direction self)"
      by (simp split: list.splits)
    thus ?thesis by (simp add: strip_prevailing_state)
  qed
qed

lemma strip_result:
  "\<not> returns_frame q \<Longrightarrow> fst (run_query (strip self) q) = fst (run_query self q)"
  by (cases q) (simp_all add: strip_basic strip_gust strip_power strip_rose strip_prevailing
      strip_daily strip_report)

lemma strip_core:
  "map_sum id core (fst (run_query (strip self) q)) = map_sum id core (fst (run_query self q))"
proof (cases "returns_frame q")
  case False
  thus ?thesis by (simp add: strip_result)
next
  case True
  have c: "map_sum id core (map_sum id Frame r) = map_sum id Frame (map_sum id drop_helpers r)"
    for r :: "error + dataframe"
    by (cases r) simp_all
  from True show ?thesis
    by (cases q) (simp_all add: c strip_calm strip_strong)
qed

lemma strip_state: "strip (snd (run_query self q)) = strip self"
  by (cases q) (simp_all add: strip_rose_state strip_prevailing_state strip_daily_state
      strip_report_state)

lemma strip_run_queries: "strip (run_queries self qs) = strip self"
  by (induction qs arbitrary: self) (simp_all add: strip_state)

text \<open>
  C9, as the code has it: for every state of the analyzer and every query with fixed
  arguments, a second call right after the first returns the same result; after any
  sequence of other queries the result is the same up to the helper columns
  (\<open>direction_bin\<close>, \<open>hour\<close>) of a returned frame, and exactly the same for every
  query but \<open>detect_calm_periods\<close> and \<open>detect_strong_wind_events\<close>, which return the
  rows of the frame with whatever helper columns earlier queries wrote.
\<close>

theorem repeated_query_results:
  "fst (run_query (snd (run_query self q)) q) = fst (run_query self q) \<and>
   map_sum id core (fst (run_query (run_queries self qs) q))
     = map_sum id core (fst (run_query self q)) \<and>
   (\<not> returns_frame q \<longrightarrow>
      fst (run_query (run_queries self qs) q) = fst (run_query self q))"
proof (intro conjI impI)
  show "fst (run_query (snd (run_query self q)) q) = fst (run_query self q)"
  proof (cases "returns_frame q")
    case True
    thus ?thesis by (cases q) simp_all
  next
    case False
    have "fst (run_query (snd (run_query self q)) q)
            = fst (run_query (strip (snd (run_query self q))) q)"
      using False by (simp add: strip_result)
    also have "\<dots> = fst (run_query (strip self) q)" by (simp add: strip_state)
    also have "\<dots> = fst (run_query self q)" using False by (simp add: strip_result)
    finally show ?thesis .
  qed
next
  have "map_sum id core (fst (run_query (run_queries self qs) q))
          = map_sum id core (fst (run_query (strip (run_queries self qs)) q))"
    by (simp add: strip_core)
  also have "\<dots> = map_sum id core (fst (run_query (strip self) q))"
    by (simp add: strip_run_queries)
  also have "\<dots> = map_sum id core (fst (run_query self q))" by (simp add: strip_core)
  finally show "map_sum id core (fst (run_query (run_queries self qs) q))
                  = map_sum id core (fst (run_query self q))" .
next
  assume nf: "\<not> returns_frame q"
  have "fst (run_query (run_queries self qs) q)
          = fst (run_query (strip (run_queries self qs)) q)"
    using nf by (simp add: strip_result)
  also have "\<dots> = fst (run_query (strip self) q)" by (simp add: strip_run_queries)
  also have "\<dots> = fst (run_query self q)" using nf by (simp add: strip_result)
  finally show "fst (run_query (run_queries self qs) q) = fst (run_query self q)" .
qed

theorem repeated_query_results_witness:
  "fst (run_query (run_queries \<lparr>data = Some ex_frame\<rparr> [WindRose 2, DailyPattern])
         (PowerDensity 2))
     = Inr (RealSeries [1, 125, 1728])"
proof -
  have "\<not> returns_frame (PowerDensity 2)" by simp
  with repeated_query_results [of "\<lparr>data = Some ex_frame\<rparr>" "PowerDensity 2"
      "[WindRose 2, DailyPattern]"]
  have "fst (run_query (run_queries \<lparr>data = Some ex_frame\<rparr> [WindRose 2, DailyPattern])
               (PowerDensity 2))
          = fst (run_query \<lparr>data = Some ex_frame\<rparr> (PowerDensity 2))"
    by blast
  also have "\<dots> = Inr (RealSeries [1, 125, 1728])"
    by (simp add: ex_frame_def empty_df_def calculate_power_density_def)
  finally show ?thesis .
qed

text \<open>
  \<open>detect_calm_periods\<close> before and after \<open>get_wind_rose_data\<close>: the second result has
  the column \<open>direction_bin\<close>, the first has not.
\<close>

theorem helper_column_counterexample:
  "fst (run_query \<lparr>data = Some ex_frame\<rparr> (DetectCalmPeriods 2))
     = Inr (Frame \<lparr> index = [0], timestamp = None, wind_speed = [1], wind_direction = [0],
                     direction_bin = None, hour = None \<rparr>) \<and>
   fst (run_query (snd (run_query \<lparr>data = Some ex_frame\<rparr> (WindRose 2)))
         (DetectCalmPeriods 2))
     = Inr (Frame \<lparr> index = [0], timestamp = None, wind_speed = [1], wind_direction = [0],
                     direction_bin = Some (IntBins [0]), hour = None \<rparr>) \<and>
   fst (run_query (snd (run_query \<lparr>data = Some ex_frame\<rparr> (WindRose 2)))
         (DetectCalmPeriods 2))
     \<noteq> fst (run_query \<lparr>data = Some ex_frame\<rparr> (DetectCalmPeriods 2))"
  by (simp add: ex_frame_def empty_df_def get_wind_rose_data_def detect_calm_periods_def
      getitem_mask_def rose_bins_def trunc_def Let_def)

end
